theory Spec2Isabelle
  imports Main "HOL-Library.Word" "HOL-Library.Sublist"
begin

section \<open>JavaScript values, files and promises\<close>

text \<open>
  The values that cross the boundary between the application and its libraries at run
  time: the arguments the media host passes to the completion callback, thrown
  exceptions, and the values a promise settles with. Numbers are restricted to the
  integers; no function of this development computes with them.
\<close>

datatype jsval =
    Undefined
  | Null
  | JBool bool
  | JNum int
  | JStr string
  | JObj "(string \<times> jsval) list"

text \<open>The test made by \<^verbatim>\<open>if (v)\<close>.\<close>

fun truthy :: "jsval \<Rightarrow> bool" where
  "truthy Undefined = False"
| "truthy Null = False"
| "truthy (JBool b) = b"
| "truthy (JNum n) = (n \<noteq> 0)"
| "truthy (JStr s) = (s \<noteq> [])"
| "truthy (JObj fs) = True"

definition TypeError :: jsval where
  "TypeError = JObj [(''name'', JStr ''TypeError'')]"

text \<open>
  The property read \<^verbatim>\<open>v.k\<close> for a key that no prototype defines: it throws a
  TypeError on \<^verbatim>\<open>undefined\<close> and \<^verbatim>\<open>null\<close>, yields \<^verbatim>\<open>undefined\<close> on the
  other primitives and on an object without the key, and the stored value otherwise.
  \<open>Inl\<close> is the thrown exception.
\<close>

fun get_prop :: "jsval \<Rightarrow> string \<Rightarrow> jsval + jsval" where
  "get_prop Undefined k = Inl TypeError"
| "get_prop Null k = Inl TypeError"
| "get_prop (JObj fs) k = (case map_of fs k of None \<Rightarrow> Inr Undefined | Some v \<Rightarrow> Inr v)"
| "get_prop v k = Inr Undefined"

type_synonym byte = "8 word"

text \<open>
  A \<^verbatim>\<open>File\<close>: the properties the sources read (\<^verbatim>\<open>name\<close>, \<^verbatim>\<open>type\<close>,
  \<^verbatim>\<open>size\<close>), its byte content, and the error with which reading it fails, if it does.
\<close>

record jsfile =
  fname :: string
  ftype :: string
  fsize :: nat
  fdata :: "byte list"
  fread_error :: "jsval option"

text \<open>\<^verbatim>\<open>file.arrayBuffer()\<close>, awaited: the rejection reason or the complete content.\<close>

definition arrayBuffer :: "jsfile \<Rightarrow> jsval + byte list" where
  "arrayBuffer f = (case fread_error f of Some e \<Rightarrow> Inl e | None \<Rightarrow> Inr (fdata f))"

text \<open>\<^verbatim>\<open>Buffer.from(arrayBuffer)\<close>: a view on the same bytes.\<close>

definition Buffer_from :: "byte list \<Rightarrow> byte list" where
  "Buffer_from bs = bs"

text \<open>
  A promise is pending or settled; \<^verbatim>\<open>resolve\<close> and \<^verbatim>\<open>reject\<close> act on a pending
  promise only.
\<close>

datatype promise = Pending | Fulfilled jsval | Rejected jsval

fun resolve :: "promise \<Rightarrow> jsval \<Rightarrow> promise" where
  "resolve Pending v = Fulfilled v"
| "resolve p v = p"

fun reject :: "promise \<Rightarrow> jsval \<Rightarrow> promise" where
  "reject Pending e = Rejected e"
| "reject p e = p"

section \<open>The upload bridge (src/lib/cloudinary.ts)\<close>

text \<open>
  The media host is the library behind \<^verbatim>\<open>cloudinary.uploader.upload_stream\<close>; it is
  a parameter of the model. The call
  \<^verbatim>\<open>upload_stream(options, callback)\<close> throws or returns a stream, and
  \<^verbatim>\<open>stream.end(buffer)\<close> throws or hands the buffer to the host, which later invokes
  the completion callback some number of times (possibly never), each time with an
  \<^verbatim>\<open>(error, result)\<close> pair. The invocations happen after \<^verbatim>\<open>end\<close> has returned, so
  an exception thrown by the callback goes to the host, not to the promise.
\<close>

record upload_options =
  folder :: string

datatype end_reply = EndThrows jsval | Completes "(jsval \<times> jsval) list"

type_synonym host = "upload_options \<Rightarrow> jsval + (byte list \<Rightarrow> end_reply)"

datatype host_call = Upload_stream upload_options | End "byte list"

text \<open>
  What the bridge does to its surroundings: the calls made to the host, the argument
  lists of the \<^verbatim>\<open>console.error\<close> calls, and the exceptions that left the callback.
\<close>

record world =
  host_log :: "host_call list"
  console :: "jsval list list"
  uncaught :: "jsval list"

definition world0 :: world where
  "world0 = \<lparr>host_log = [], console = [], uncaught = []\<rparr>"

text \<open>
  The completion callback
  \<^verbatim>\<open>(error, result) => { if (error) reject(error) else resolve(result.secure_url) }\<close>
  on the promise's current state: the new state and the exception thrown, if any.
\<close>

definition callback :: "promise \<Rightarrow> jsval \<times> jsval \<Rightarrow> promise \<times> jsval option" where
  "callback p = (\<lambda>(error, result).
     if truthy error then (reject p error, None)
     else (case get_prop result ''secure_url'' of
             Inl exn \<Rightarrow> (p, Some exn)
           | Inr url \<Rightarrow> (resolve p url, None)))"

text \<open>The host's invocations of the callback, in order.\<close>

fun deliver :: "promise \<Rightarrow> (jsval \<times> jsval) list \<Rightarrow> promise \<times> jsval list" where
  "deliver p [] = (p, [])"
| "deliver p (c # cs) =
     (case callback p c of
        (p', None) \<Rightarrow> deliver p' cs
      | (p', Some exn) \<Rightarrow> (case deliver p' cs of (q, exns) \<Rightarrow> (q, exn # exns)))"

text \<open>
  \<^verbatim>\<open>uploadToCloudinary(file)\<close>: the final state of the returned promise and the
  effects. A rejected read is caught by the \<^verbatim>\<open>catch\<close> block, logged and rethrown. The
  inner promise is returned without \<^verbatim>\<open>await\<close>, so the promise of the async function
  takes the inner promise's state; an exception thrown by the executor rejects the inner
  promise.
\<close>

definition uploadToCloudinary :: "jsfile \<Rightarrow> host \<Rightarrow> world \<Rightarrow> promise \<times> world" where
  "uploadToCloudinary fl h w =
     (case arrayBuffer fl of
        Inl err \<Rightarrow>
          (Rejected err, w\<lparr>console := console w @ [[JStr ''Error uploading to Cloudinary:'', err]]\<rparr>)
      | Inr arrayBuf \<Rightarrow>
          let buffer = Buffer_from arrayBuf;
              options = \<lparr>folder = ''project-logos''\<rparr>;
              w1 = w\<lparr>host_log := host_log w @ [Upload_stream options]\<rparr>
          in (case h options of
                Inl exn \<Rightarrow> (Rejected exn, w1)
              | Inr stream \<Rightarrow>
                  let w2 = w1\<lparr>host_log := host_log w1 @ [End buffer]\<rparr>
                  in (case stream buffer of
                        EndThrows exn \<Rightarrow> (Rejected exn, w2)
                      | Completes calls \<Rightarrow>
                          (case deliver Pending calls of
                             (p, exns) \<Rightarrow> (p, w2\<lparr>uncaught := uncaught w2 @ exns\<rparr>)))))"

section \<open>JavaScript strings\<close>

text \<open>
  Text that the page computes with (titles, descriptions, the search string) is a
  JavaScript string: the list of its UTF-16 code units, numbers below 65536. Strings that
  are only passed on (identifiers, URLs, messages, media types) stay \<open>string\<close>.

  \<^verbatim>\<open>String.prototype.toLowerCase\<close> decodes the code units to code points, applies
  the lowercase mapping of the Unicode Standard to each code point in its context, and
  encodes the result. The mapping reads three columns of the Unicode Character Database,
  which are a parameter: the simple lowercase mapping (the code point itself where there
  is none) and the properties Cased and Case_Ignorable. Two code points do not follow the
  simple mapping: U+0130 becomes the two code points U+0069 U+0307, and the capital sigma
  U+03A3 becomes the final sigma U+03C2 when it ends a word (the condition Final_Sigma: a
  cased letter stands before it, case-ignorable code points apart, and none after it).
\<close>

type_synonym jstring = "nat list"

record ucd =
  simple_lower :: "nat \<Rightarrow> nat"
  cased :: "nat \<Rightarrow> bool"
  case_ignorable :: "nat \<Rightarrow> bool"

definition is_lead :: "nat \<Rightarrow> bool" where
  "is_lead u = (0xD800 \<le> u \<and> u \<le> 0xDBFF)"

definition is_trail :: "nat \<Rightarrow> bool" where
  "is_trail u = (0xDC00 \<le> u \<and> u \<le> 0xDFFF)"

text \<open>A lead surrogate followed by a trail surrogate is one code point.\<close>

fun StringToCodePoints :: "jstring \<Rightarrow> nat list" where
  "StringToCodePoints [] = []"
| "StringToCodePoints [u] = [u]"
| "StringToCodePoints (u # v # us) =
     (if is_lead u \<and> is_trail v
      then (0x10000 + (u - 0xD800) * 0x400 + (v - 0xDC00)) # StringToCodePoints us
      else u # StringToCodePoints (v # us))"

definition UTF16EncodeCodePoint :: "nat \<Rightarrow> jstring" where
  "UTF16EncodeCodePoint cp =
     (if cp \<le> 0xFFFF then [cp]
      else [0xD800 + (cp - 0x10000) div 0x400, 0xDC00 + (cp - 0x10000) mod 0x400])"

definition CodePointsToString :: "nat list \<Rightarrow> jstring" where
  "CodePointsToString cps = concat (map UTF16EncodeCodePoint cps)"

text \<open>
  Going away from a position: a cased letter comes, after case-ignorable code points
  only. \<open>before\<close> lists the code points before the position, the nearest first.
\<close>

fun cased_letter_next :: "ucd \<Rightarrow> nat list \<Rightarrow> bool" where
  "cased_letter_next U [] = False"
| "cased_letter_next U (c # cs) =
     (cased U c \<or> (case_ignorable U c \<and> cased_letter_next U cs))"

definition Final_Sigma :: "ucd \<Rightarrow> nat list \<Rightarrow> nat list \<Rightarrow> bool" where
  "Final_Sigma U before after = (cased_letter_next U before \<and> \<not> cased_letter_next U after)"

definition lowercase_mapping :: "ucd \<Rightarrow> nat list \<Rightarrow> nat \<Rightarrow> nat list \<Rightarrow> nat list" where
  "lowercase_mapping U before c after =
     (if c = 0x0130 then [0x0069, 0x0307]
      else if c = 0x03A3 \<and> Final_Sigma U before after then [0x03C2]
      else [simple_lower U c])"

fun toLowercase :: "ucd \<Rightarrow> nat list \<Rightarrow> nat list \<Rightarrow> nat list" where
  "toLowercase U before [] = []"
| "toLowercase U before (c # after) =
     lowercase_mapping U before c after @ toLowercase U (c # before) after"

definition toLowerCase :: "ucd \<Rightarrow> jstring \<Rightarrow> jstring" where
  "toLowerCase U s = CodePointsToString (toLowercase U [] (StringToCodePoints s))"


section \<open>The events administration page (src/app/admin/events/page.tsx)\<close>

datatype event_status = DRAFT | PUBLISHED | CANCELLED

record event =
  ev_id :: string
  title :: jstring
  description :: jstring
  startDateTime :: string
  endDateTime :: string
  eventType :: string
  venue :: "string option"
  address :: "string option"
  city :: "string option"
  country :: "string option"
  organizers :: "string option"
  contactEmail :: "string option"
  contactPhone :: "string option"
  capacity :: "int option"
  price :: "int option"
  registrationDeadline :: "string option"
  thumbnail :: "string option"
  status :: event_status
  createdAt :: string
  updatedAt :: string

record delete_modal =
  isOpen :: bool
  eventId :: string
  eventTitle :: jstring

datatype toast = ToastSuccess string | ToastError string

record request =
  rmethod :: string
  rurl :: string

text \<open>
  A response as the page reads it: the \<^verbatim>\<open>ok\<close> flag and what \<^verbatim>\<open>response.json()\<close>
  settles with. \<^verbatim>\<open>fetch\<close> itself rejects (\<open>Inl\<close>) or yields a response; the backend
  is a parameter.
\<close>

record response =
  ok :: bool
  json :: "jsval + event list"

type_synonym net = "request \<Rightarrow> jsval + response"

text \<open>
  The component's state (the four \<^verbatim>\<open>useState\<close> cells) and the effects it has
  produced: requests issued, toasts shown, argument lists of the
  \<^verbatim>\<open>console.error\<close> calls.
\<close>

record page =
  events :: "event list"
  isLoading :: bool
  searchQuery :: jstring
  deleteModal :: delete_modal
  requests :: "request list"
  toasts :: "toast list"
  page_console :: "jsval list list"

text \<open>\<^verbatim>\<open>new Error(msg)\<close>.\<close>

definition Error :: "string \<Rightarrow> jsval" where
  "Error msg = JObj [(''name'', JStr ''Error''), (''message'', JStr msg)]"

text \<open>
  \<^verbatim>\<open>fetchEvents\<close> runs up to its first \<^verbatim>\<open>await\<close> when it is called
  (\<open>fetchEvents_begin\<close>) and resumes when the response arrives
  (\<open>fetchEvents_resume\<close>); \<open>fetchEvents_catch\<close> is its \<^verbatim>\<open>catch\<close> block.
\<close>

definition fetchEvents_request :: request where
  "fetchEvents_request = \<lparr>rmethod = ''GET'', rurl = ''/api/admin/events''\<rparr>"

definition fetchEvents_begin :: "page \<Rightarrow> page" where
  "fetchEvents_begin s =
     (let s1 = s\<lparr>isLoading := True\<rparr>
      in s1\<lparr>requests := requests s1 @ [fetchEvents_request]\<rparr>)"

definition fetchEvents_catch :: "jsval \<Rightarrow> page \<Rightarrow> page" where
  "fetchEvents_catch error s =
     (let s1 = s\<lparr>page_console := page_console s @ [[JStr ''Error loading events:'', error]]\<rparr>
      in s1\<lparr>toasts := toasts s1 @ [ToastError ''Failed to load events'']\<rparr>)"

definition fetchEvents_resume :: "net \<Rightarrow> page \<Rightarrow> page" where
  "fetchEvents_resume nt s =
     (let s1 = (case nt fetchEvents_request of
                  Inl exn \<Rightarrow> fetchEvents_catch exn s
                | Inr response \<Rightarrow>
                    if \<not> ok response then fetchEvents_catch (Error ''Failed to fetch events'') s
                    else (case json response of
                            Inl exn \<Rightarrow> fetchEvents_catch exn s
                          | Inr data \<Rightarrow> s\<lparr>events := data\<rparr>))
      in s1\<lparr>isLoading := False\<rparr>)"

definition fetchEvents :: "net \<Rightarrow> page \<Rightarrow> page" where
  "fetchEvents nt s = fetchEvents_resume nt (fetchEvents_begin s)"

definition handleDeleteClick :: "string \<Rightarrow> jstring \<Rightarrow> page \<Rightarrow> page" where
  "handleDeleteClick evId evTitle s =
     s\<lparr>deleteModal := \<lparr>isOpen = True, eventId = evId, eventTitle = evTitle\<rparr>\<rparr>"

text \<open>
  \<^verbatim>\<open>handleDeleteConfirm\<close>. The result is the page when the handler has completed,
  and whether a \<^verbatim>\<open>fetchEvents()\<close> that it started without \<^verbatim>\<open>await\<close> is still in
  flight. \<open>handleDeleteConfirm_catch\<close> is the \<^verbatim>\<open>catch\<close> block.
\<close>

definition handleDeleteConfirm_catch :: "jsval \<Rightarrow> page \<Rightarrow> page" where
  "handleDeleteConfirm_catch error s =
     (let s1 = s\<lparr>toasts := toasts s @ [ToastError ''Error deleting event'']\<rparr>
      in s1\<lparr>page_console := page_console s1 @ [[error]]\<rparr>)"

definition handleDeleteConfirm :: "net \<Rightarrow> page \<Rightarrow> page \<times> bool" where
  "handleDeleteConfirm nt s =
     (let req = \<lparr>rmethod = ''DELETE'', rurl = ''/api/events/'' @ eventId (deleteModal s)\<rparr>;
          s1 = s\<lparr>requests := requests s @ [req]\<rparr>;
          (s2, in_flight) =
            (case nt req of
               Inl exn \<Rightarrow> (handleDeleteConfirm_catch exn s1, False)
             | Inr response \<Rightarrow>
                 if \<not> ok response
                 then (handleDeleteConfirm_catch (Error ''Failed to delete event'') s1, False)
                 else (fetchEvents_begin
                         (s1\<lparr>toasts := toasts s1 @ [ToastSuccess ''Event deleted successfully'']\<rparr>),
                       True))
      in (s2\<lparr>deleteModal := \<lparr>isOpen = False, eventId = [], eventTitle = []\<rparr>\<rparr>, in_flight))"

text \<open>The page once the refetch, if one was started, has come back.\<close>

definition settled :: "net \<Rightarrow> page \<times> bool \<Rightarrow> page" where
  "settled nt r = (case r of (s, in_flight) \<Rightarrow> if in_flight then fetchEvents_resume nt s else s)"

subsection \<open>The search filter\<close>






section \<open>The sponsor form (logo attachment of createSponsorSchema)\<close>

text \<open>
  The value of the \<^verbatim>\<open>logo\<close> field is a \<^verbatim>\<open>FileList\<close> or absent
  (\<^verbatim>\<open>undefined\<close> or \<^verbatim>\<open>null\<close>, \<open>None\<close>). The three refinements follow; each reads
  through \<^verbatim>\<open>?.\<close>, so an absent list or an absent first file gives \<^verbatim>\<open>undefined\<close>,
  which is neither \<^verbatim>\<open>=== 1\<close> nor \<^verbatim>\<open><=\<close> a number nor a member of the array.
\<close>

definition logo_has_one :: "jsfile list option \<Rightarrow> bool" where
  "logo_has_one files = (case files of None \<Rightarrow> False | Some fs \<Rightarrow> length fs = 1)"

definition logo_size_ok :: "jsfile list option \<Rightarrow> bool" where
  "logo_size_ok files =
     (case files of
        None \<Rightarrow> False
      | Some [] \<Rightarrow> False
      | Some (f # _) \<Rightarrow> fsize f \<le> 2 * 1024 * 1024)"

definition logo_type_ok :: "jsfile list option \<Rightarrow> bool" where
  "logo_type_ok files =
     (case files of
        None \<Rightarrow> False
      | Some [] \<Rightarrow> False
      | Some (f # _) \<Rightarrow> ftype f \<in> set [''image/jpeg'', ''image/jpg'', ''image/png''])"

record issue =
  path :: string
  message :: string

text \<open>Every refinement is run; each failed one adds its issue, in order.\<close>

definition logo_issues :: "jsfile list option \<Rightarrow> issue list" where
  "logo_issues files =
     (if logo_has_one files then [] else [\<lparr>path = ''logo'', message = ''Logo is required''\<rparr>]) @
     (if logo_size_ok files then []
      else [\<lparr>path = ''logo'', message = ''Logo must be less than 2MB''\<rparr>]) @
     (if logo_type_ok files then []
      else [\<lparr>path = ''logo'', message = ''Only .jpg, .jpeg, and .png files are allowed''\<rparr>])"

text \<open>
  The form's values. The schema is an object of seven keys; the validation library
  checks them in the order of the schema and collects the issues in that order, each
  under the path of its key. The checks of the six other fields are the library's own;
  the messages they raise are a parameter (\<open>other\<close>, by key). The object is accepted
  when no field has an issue.
\<close>

record sponsor_data =
  sp_name :: string
  sp_description :: string
  sp_logo :: "jsfile list option"
  sp_email :: string
  sp_phone :: "string option"
  sp_website :: "string option"
  sp_sponsorshipLevel :: string

definition schema_keys :: "string list" where
  "schema_keys = [''name'', ''description'', ''logo'', ''email'', ''phone'', ''website'',
                  ''sponsorshipLevel'']"

definition field_issues ::
  "(string \<Rightarrow> sponsor_data \<Rightarrow> string list) \<Rightarrow> sponsor_data \<Rightarrow> string \<Rightarrow> issue list" where
  "field_issues other data k =
     (if k = ''logo'' then logo_issues (sp_logo data)
      else map (\<lambda>m. \<lparr>path = k, message = m\<rparr>) (other k data))"

definition createSponsorSchema ::
  "(string \<Rightarrow> sponsor_data \<Rightarrow> string list) \<Rightarrow> sponsor_data \<Rightarrow> issue list" where
  "createSponsorSchema other data = concat (map (field_issues other data) schema_keys)"

text \<open>
  The resolver turns the issues into the form's errors: for each field, the message of
  the first issue under its path (\<^verbatim>\<open>errors.logo.message\<close> is what the page shows).
\<close>

definition zodResolver :: "issue list \<Rightarrow> string \<Rightarrow> string option" where
  "zodResolver issues k =
     (case filter (\<lambda>i. path i = k) issues of [] \<Rightarrow> None | i # _ \<Rightarrow> Some (message i))"

datatype form_entry = EText string | EFile jsfile

type_synonym formData = "(string \<times> form_entry) list"

text \<open>\<^verbatim>\<open>data[key]?.toString() || ""\<close> for a text field.\<close>

definition text_entry :: "string option \<Rightarrow> form_entry" where
  "text_entry v = (case v of None \<Rightarrow> EText [] | Some t \<Rightarrow> EText t)"

text \<open>
  The loop over \<^verbatim>\<open>Object.keys(data)\<close>. \<^verbatim>\<open>data.logo[0]\<close> throws a TypeError when
  there is no list, and is \<^verbatim>\<open>undefined\<close>, appended as that word, when the list is
  empty.
\<close>

definition build_formData :: "sponsor_data \<Rightarrow> jsval + formData" where
  "build_formData data =
     (case sp_logo data of
        None \<Rightarrow> Inl TypeError
      | Some fs \<Rightarrow>
          Inr [(''name'', text_entry (Some (sp_name data))),
               (''description'', text_entry (Some (sp_description data))),
               (''logo'', (case fs of [] \<Rightarrow> EText ''undefined'' | f # _ \<Rightarrow> EFile f)),
               (''email'', text_entry (Some (sp_email data))),
               (''phone'', text_entry (sp_phone data)),
               (''website'', text_entry (sp_website data)),
               (''sponsorshipLevel'', text_entry (Some (sp_sponsorshipLevel data)))])"

text \<open>
  The page's state and effects: the POST requests to \<^verbatim>\<open>/api/sponsors\<close> (by their
  bodies), toasts, console lines, navigations, and the errors of the form, by field. The
  backend answers a body with a rejection or with the response's \<^verbatim>\<open>ok\<close> flag.
\<close>

record sponsor_page =
  isSubmitting :: bool
  form_errors :: "string \<Rightarrow> string option"
  posts :: "formData list"
  sp_toasts :: "toast list"
  sp_console :: "jsval list list"
  pushed :: "string list"

type_synonym sponsor_net = "formData \<Rightarrow> jsval + bool"

definition onSubmit_catch :: "jsval \<Rightarrow> sponsor_page \<Rightarrow> sponsor_page" where
  "onSubmit_catch error s =
     (let s1 = s\<lparr>sp_toasts := sp_toasts s @ [ToastError ''Error creating sponsor'']\<rparr>
      in s1\<lparr>sp_console := sp_console s1 @ [[error]]\<rparr>)"

definition onSubmit :: "sponsor_net \<Rightarrow> sponsor_data \<Rightarrow> sponsor_page \<Rightarrow> sponsor_page" where
  "onSubmit nt data s =
     (let s1 = s\<lparr>isSubmitting := True\<rparr>;
          s2 = (case build_formData data of
                  Inl exn \<Rightarrow> onSubmit_catch exn s1
                | Inr body \<Rightarrow>
                    let s3 = s1\<lparr>posts := posts s1 @ [body]\<rparr>
                    in (case nt body of
                          Inl exn \<Rightarrow> onSubmit_catch exn s3
                        | Inr response_ok \<Rightarrow>
                            if \<not> response_ok
                            then onSubmit_catch (Error ''Failed to create sponsor'') s3
                            else (let s4 = s3\<lparr>sp_toasts := sp_toasts s3 @
                                                [ToastSuccess ''Sponsor created successfully!'']\<rparr>
                                  in s4\<lparr>pushed := pushed s4 @ [''/admin/sponsors'']\<rparr>)))
      in s2\<lparr>isSubmitting := False\<rparr>)"

text \<open>
  \<^verbatim>\<open>handleSubmit(onSubmit)\<close> with the schema as resolver: the handler runs only on
  values the schema accepts; otherwise the resolver's errors become the form's errors.
\<close>

definition handleSubmit ::
  "(string \<Rightarrow> sponsor_data \<Rightarrow> string list) \<Rightarrow> sponsor_net \<Rightarrow> sponsor_data \<Rightarrow>
     sponsor_page \<Rightarrow> sponsor_page" where
  "handleSubmit other nt data s =
     (let issues = createSponsorSchema other data
      in if issues = [] then onSubmit nt data (s\<lparr>form_errors := (\<lambda>k. None)\<rparr>)
         else s\<lparr>form_errors := zodResolver issues\<rparr>)"

section \<open>Notions used in the statements\<close>

text \<open>
  An invocation of the completion callback is decisive when it carries an error (a
  truthy first argument) or a result that is neither \<^verbatim>\<open>undefined\<close> nor
  \<^verbatim>\<open>null\<close>.
\<close>

definition decisive :: "jsval \<times> jsval \<Rightarrow> bool" where
  "decisive c = (truthy (fst c) \<or> (snd c \<noteq> Undefined \<and> snd c \<noteq> Null))"

text \<open>
  The invocations with an end: the read fails, the host throws, or the host makes at
  least one decisive invocation of the callback.
\<close>

definition will_settle :: "jsfile \<Rightarrow> host \<Rightarrow> bool" where
  "will_settle fl h =
     (case arrayBuffer fl of
        Inl err \<Rightarrow> True
      | Inr bytes \<Rightarrow>
          (case h \<lparr>folder = ''project-logos''\<rparr> of
             Inl exn \<Rightarrow> True
           | Inr stream \<Rightarrow>
               (case stream bytes of
                  EndThrows exn \<Rightarrow> True
                | Completes calls \<Rightarrow> list_ex decisive calls)))"

text \<open>The host \<open>h\<close>, except that it goes on to invoke the callback with \<open>extra\<close>.\<close>

definition calling_back_more :: "host \<Rightarrow> (jsval \<times> jsval) list \<Rightarrow> host" where
  "calling_back_more h extra =
     (\<lambda>options. case h options of
        Inl exn \<Rightarrow> Inl exn
      | Inr stream \<Rightarrow>
          Inr (\<lambda>buffer. case stream buffer of
                 EndThrows exn \<Rightarrow> EndThrows exn
               | Completes calls \<Rightarrow> Completes (calls @ extra)))"

text \<open>
  The host fails the upload with \<open>e\<close>: one of its two calls throws \<open>e\<close>, or its first
  invocation of the callback carries the error \<open>e\<close>.
\<close>

definition host_fails :: "host \<Rightarrow> byte list \<Rightarrow> jsval \<Rightarrow> bool" where
  "host_fails h bytes e =
     (case h \<lparr>folder = ''project-logos''\<rparr> of
        Inl exn \<Rightarrow> exn = e
      | Inr stream \<Rightarrow>
          (case stream bytes of
             EndThrows exn \<Rightarrow> exn = e
           | Completes calls \<Rightarrow>
               (case calls of [] \<Rightarrow> False | (err, res) # rest \<Rightarrow> truthy err \<and> err = e)))"

text \<open>
  The host raised \<open>e\<close>: one of its two calls threw \<open>e\<close>, or some invocation of the
  callback carried the error \<open>e\<close>.
\<close>

definition host_raised :: "host \<Rightarrow> byte list \<Rightarrow> jsval \<Rightarrow> bool" where
  "host_raised h bytes e =
     (case h \<lparr>folder = ''project-logos''\<rparr> of
        Inl exn \<Rightarrow> exn = e
      | Inr stream \<Rightarrow>
          (case stream bytes of
             EndThrows exn \<Rightarrow> exn = e
           | Completes calls \<Rightarrow> list_ex (\<lambda>c. fst c = e \<and> truthy e) calls))"

text \<open>The calls one invocation makes to the host.\<close>

definition upload_calls :: "jsfile \<Rightarrow> host \<Rightarrow> host_call list" where
  "upload_calls fl h = host_log (snd (uploadToCloudinary fl h world0))"


text \<open>The DELETE request of the delete confirmation, and its failure.\<close>

definition delete_request :: "page \<Rightarrow> request" where
  "delete_request s = \<lparr>rmethod = ''DELETE'', rurl = ''/api/events/'' @ eventId (deleteModal s)\<rparr>"

definition delete_failed :: "net \<Rightarrow> page \<Rightarrow> bool" where
  "delete_failed nt s =
     (case nt (delete_request s) of Inl exn \<Rightarrow> True | Inr response \<Rightarrow> \<not> ok response)"

subsection \<open>Sample inputs\<close>

definition payload10 :: jsfile where
  "payload10 = \<lparr>fname = ''logo.png'', ftype = ''image/png'', fsize = 10,
                 fdata = [137, 80, 78, 71, 13, 10, 26, 10, 0, 0], fread_error = None\<rparr>"

text \<open>A host that accepts every upload and completes it as told.\<close>

definition host_replying :: "end_reply \<Rightarrow> host" where
  "host_replying r = (\<lambda>options. Inr (\<lambda>buffer. r))"

text \<open>A host that knows the folder \<^verbatim>\<open>project-logos\<close> only.\<close>

definition logo_host :: "end_reply \<Rightarrow> host" where
  "logo_host r =
     (\<lambda>options. if folder options = ''project-logos'' then Inr (\<lambda>buffer. r)
                else Inl (Error ''unknown folder''))"

definition cdn_response :: jsval where
  "cdn_response = JObj [(''public_id'', JStr ''project-logos/abc123''),
                        (''secure_url'', JStr ''https://cdn.example/project-logos/abc123.png'')]"

definition quota_error :: jsval where
  "quota_error = JObj [(''message'', JStr ''quota exceeded''), (''http_code'', JNum 420)]"

text \<open>The code units of a text in ASCII.\<close>

definition units :: "string \<Rightarrow> jstring" where
  "units s = map of_char s"


definition sample_event :: "string \<Rightarrow> jstring \<Rightarrow> jstring \<Rightarrow> event" where
  "sample_event i t d =
     \<lparr>ev_id = i, title = t, description = d,
      startDateTime = ''2025-06-01T18:00:00.000Z'', endDateTime = ''2025-06-01T21:00:00.000Z'',
      eventType = ''Meetup'', venue = Some ''Town Hall'', address = None, city = Some ''Luton'',
      country = None, organizers = None, contactEmail = None, contactPhone = None,
      capacity = Some 80, price = None, registrationDeadline = None, thumbnail = None,
      status = PUBLISHED,
      createdAt = ''2025-05-01T09:00:00.000Z'', updatedAt = ''2025-05-01T09:00:00.000Z''\<rparr>"

definition launch_party :: event where
  "launch_party = sample_event ''e1'' (units ''Summer LAUNCH Party'') (units ''Music and food'')"

definition board_meeting :: event where
  "board_meeting = sample_event ''e2'' (units ''Board meeting'') (units ''Quarterly review'')"

definition rocket_workshop :: event where
  "rocket_workshop =
     sample_event ''e3'' (units ''Workshop'') (units ''Learn to launch a rocket'')"



text \<open>The page with two events, the first being confirmed for deletion.\<close>

definition sample_page :: page where
  "sample_page =
     \<lparr>events = [launch_party, board_meeting], isLoading = False, searchQuery = [],
      deleteModal = \<lparr>isOpen = True, eventId = ''e1'', eventTitle = units ''Summer LAUNCH Party''\<rparr>,
      requests = [], toasts = [], page_console = []\<rparr>"

text \<open>
  Backends: one that answers every request with a non-ok response, one that cannot be
  reached, one that accepts every request and lists the given events, and one that
  carries out deletions and fails every other request.
\<close>

definition refusing_backend :: net where
  "refusing_backend req = Inr \<lparr>ok = False, json = Inl Undefined\<rparr>"

definition unreachable_backend :: net where
  "unreachable_backend req = Inl (Error ''Failed to fetch'')"

definition backend_listing :: "event list \<Rightarrow> net" where
  "backend_listing evs req = Inr \<lparr>ok = True, json = Inr evs\<rparr>"

definition deleting_backend :: net where
  "deleting_backend req =
     (if rmethod req = ''DELETE'' then Inr \<lparr>ok = True, json = Inl Undefined\<rparr>
      else Inr \<lparr>ok = False, json = Inl Undefined\<rparr>)"

text \<open>
  A PDF file of 3 MiB, beyond what the sponsor form accepts in size and in type. For the
  sponsor form: a filled form around a logo field, an empty page, a backend that accepts
  every body, a schema whose other fields raise no issue, and one whose name field
  raises one.
\<close>

definition zeros_3MiB :: "byte list" where
  "zeros_3MiB = replicate (3 * 1024 * 1024) 0"

definition oversized_pdf :: jsfile where
  "oversized_pdf = \<lparr>fname = ''deck.pdf'', ftype = ''application/pdf'', fsize = 3 * 1024 * 1024,
                     fdata = zeros_3MiB, fread_error = None\<rparr>"

definition sample_sponsor :: "jsfile list option \<Rightarrow> sponsor_data" where
  "sample_sponsor files =
     \<lparr>sp_name = ''Acme'', sp_description = ''Tools and hardware'', sp_logo = files,
      sp_email = ''hello@acme.example'', sp_phone = None,
      sp_website = Some ''https://acme.example'', sp_sponsorshipLevel = ''Gold''\<rparr>"

definition blank_form :: sponsor_page where
  "blank_form = \<lparr>isSubmitting = False, form_errors = (\<lambda>k. None), posts = [], sp_toasts = [],
                  sp_console = [], pushed = []\<rparr>"

definition accepting_backend :: sponsor_net where
  "accepting_backend body = Inr True"

definition no_other_issues :: "string \<Rightarrow> sponsor_data \<Rightarrow> string list" where
  "no_other_issues k data = []"

definition name_too_long :: "string \<Rightarrow> sponsor_data \<Rightarrow> string list" where
  "name_too_long k data = (if k = ''name'' then [''Name cannot exceed 100 characters''] else [])"

section \<open>The upload bridge: outcomes\<close>

subsection \<open>The callback and the promise\<close>

lemma get_prop_throws_iff: "(\<exists>e. get_prop v k = Inl e) \<longleftrightarrow> (v = Undefined \<or> v = Null)"
  by (cases v) (auto split: option.splits)

lemma callback_settled: "p \<noteq> Pending \<Longrightarrow> fst (callback p c) = p"
  by (cases p; cases c) (auto simp: callback_def split: sum.splits)

lemma callback_not_decisive: "\<not> decisive c \<Longrightarrow> callback p c = (p, Some TypeError)"
  by (cases c) (auto simp: callback_def decisive_def split: sum.splits)

lemma callback_decisive:
  "decisive c \<Longrightarrow> fst (callback Pending c) \<noteq> Pending \<and> snd (callback Pending c) = None"
  apply (cases c)
  subgoal for e r
    by (cases r) (auto simp: callback_def decisive_def split: sum.splits option.splits)
  done

lemma fst_deliver_Cons: "fst (deliver p (c # cs)) = fst (deliver (fst (callback p c)) cs)"
  by (auto split: prod.splits option.splits)

lemma deliver_settled: "p \<noteq> Pending \<Longrightarrow> fst (deliver p cs) = p"
  by (induction cs arbitrary: p)
     (simp_all add: fst_deliver_Cons callback_settled del: deliver.simps(2))

lemma fst_deliver_append: "fst (deliver p (cs @ ds)) = fst (deliver (fst (deliver p cs)) ds)"
  by (induction cs arbitrary: p) (simp_all add: fst_deliver_Cons del: deliver.simps(2))

lemma deliver_list_ex: "fst (deliver Pending cs) \<noteq> Pending \<longleftrightarrow> list_ex decisive cs"
proof (induction cs)
  case Nil
  then show ?case by simp
next
  case (Cons c cs)
  show ?case
  proof (cases "decisive c")
    case True
    then show ?thesis
      using callback_decisive [of c] deliver_settled [of "fst (callback Pending c)" cs]
      by (simp add: fst_deliver_Cons del: deliver.simps(2))
  next
    case False
    then show ?thesis
      using Cons by (simp add: fst_deliver_Cons callback_not_decisive del: deliver.simps(2))
  qed
qed

lemma fst_upload:
  "fst (uploadToCloudinary fl h w) =
     (case arrayBuffer fl of
        Inl err \<Rightarrow> Rejected err
      | Inr bytes \<Rightarrow>
          (case h \<lparr>folder = ''project-logos''\<rparr> of
             Inl exn \<Rightarrow> Rejected exn
           | Inr stream \<Rightarrow>
               (case stream bytes of
                  EndThrows exn \<Rightarrow> Rejected exn
                | Completes calls \<Rightarrow> fst (deliver Pending calls))))"
  by (simp add: uploadToCloudinary_def Buffer_from_def Let_def
           split: sum.splits end_reply.splits prod.splits)

subsection \<open>One outcome per invocation\<close>

text \<open>
  C1, as stated, fails: with a host that takes the buffer and never invokes the
  completion callback, the returned promise stays pending. The bridge has no timeout.
\<close>

theorem upload_hangs_counterexample:
  "fst (uploadToCloudinary payload10 (host_replying (Completes [])) world0) = Pending"
  by (simp add: fst_upload arrayBuffer_def payload10_def host_replying_def)

text \<open>
  C1, amended: the returned promise settles, fulfilled or rejected, in exactly those
  invocations in which the read of the payload fails, a call to the host throws, or the
  host invokes the completion callback at least once with an error or a defined result;
  and then its outcome is final: further invocations of the callback by the host do not
  change it.
\<close>

theorem upload_settles_exactly_once:
  "(fst (uploadToCloudinary fl h w) \<noteq> Pending \<longleftrightarrow> will_settle fl h) \<and>
   (will_settle fl h \<longrightarrow>
      (\<forall>extra. fst (uploadToCloudinary fl (calling_back_more h extra) w) =
                fst (uploadToCloudinary fl h w)))"
proof (cases "arrayBuffer fl")
  case (Inl err)
  then show ?thesis by (simp add: fst_upload will_settle_def)
next
  case bytes: (Inr bytes)
  show ?thesis
  proof (cases "h \<lparr>folder = ''project-logos''\<rparr>")
    case (Inl exn)
    with bytes show ?thesis by (simp add: fst_upload calling_back_more_def will_settle_def)
  next
    case stream: (Inr stream)
    show ?thesis
    proof (cases "stream bytes")
      case (EndThrows exn)
      with bytes stream show ?thesis
        by (simp add: fst_upload calling_back_more_def will_settle_def)
    next
      case (Completes calls)
      with bytes stream have w: "will_settle fl h \<longleftrightarrow> list_ex decisive calls"
        by (simp add: will_settle_def)
      have "fst (deliver Pending (calls @ extra)) = fst (deliver Pending calls)"
        if "list_ex decisive calls" for extra
      proof -
        from that have "fst (deliver Pending calls) \<noteq> Pending"
          by (simp only: deliver_list_ex)
        then show ?thesis
          by (simp add: fst_deliver_append deliver_settled)
      qed
      with bytes stream Completes show ?thesis
        by (simp add: w fst_upload calling_back_more_def deliver_list_ex)
    qed
  qed
qed

theorem upload_settles_exactly_once_witness:
  "will_settle payload10
     (host_replying (Completes [(Null, Undefined), (Undefined, cdn_response)])) \<and>
   fst (uploadToCloudinary payload10
          (host_replying (Completes [(Null, Undefined), (Undefined, cdn_response)])) world0) =
     Fulfilled (JStr ''https://cdn.example/project-logos/abc123.png'') \<and>
   fst (uploadToCloudinary payload10
          (calling_back_more
             (host_replying (Completes [(Null, Undefined), (Undefined, cdn_response)]))
             [(quota_error, Undefined)]) world0) =
     Fulfilled (JStr ''https://cdn.example/project-logos/abc123.png'')"
proof -
  let ?h = "host_replying (Completes [(Null, Undefined), (Undefined, cdn_response)])"
  have h: "will_settle payload10 ?h"
    by (simp add: will_settle_def arrayBuffer_def payload10_def host_replying_def decisive_def
          cdn_response_def)
  have v: "fst (uploadToCloudinary payload10 ?h world0) =
             Fulfilled (JStr ''https://cdn.example/project-logos/abc123.png'')"
    by (simp add: fst_upload arrayBuffer_def payload10_def host_replying_def callback_def
          cdn_response_def)
  from upload_settles_exactly_once [of payload10 ?h world0] h
  have "fst (uploadToCloudinary payload10 (calling_back_more ?h [(quota_error, Undefined)]) world0) =
          fst (uploadToCloudinary payload10 ?h world0)"
    by blast
  with h v show ?thesis
    by (simp only: simp_thms)
qed

subsection \<open>What is sent to the host\<close>

lemma upload_calls_eq:
  "upload_calls fl h =
     (case arrayBuffer fl of
        Inl err \<Rightarrow> []
      | Inr bytes \<Rightarrow>
          Upload_stream \<lparr>folder = ''project-logos''\<rparr> #
          (case h \<lparr>folder = ''project-logos''\<rparr> of Inl exn \<Rightarrow> [] | Inr stream \<Rightarrow> [End bytes]))"
  by (simp add: upload_calls_def uploadToCloudinary_def Buffer_from_def Let_def world0_def
           split: sum.splits end_reply.splits prod.splits)

lemma host_log_upload:
  "host_log (snd (uploadToCloudinary fl h w)) = host_log w @ upload_calls fl h"
  by (simp add: upload_calls_def uploadToCloudinary_def Buffer_from_def Let_def world0_def
           split: sum.splits end_reply.splits prod.splits)

lemma arrayBuffer_Inr_iff: "arrayBuffer fl = Inr b \<longleftrightarrow> fread_error fl = None \<and> b = fdata fl"
  by (auto simp: arrayBuffer_def split: option.splits)

subsection \<open>Success, failure, buffering, validation\<close>

text \<open>
  C2: when the payload has been read, the host has taken the buffer and its first
  invocation of the completion callback carries no error and a response whose
  \<^verbatim>\<open>secure_url\<close> is the string \<open>url\<close>, the bridge resolves with exactly \<open>url\<close>;
  the only options passed to the host name the folder \<^verbatim>\<open>project-logos\<close>. The
  witness is the specification's scenario: a payload of 10 bytes and the response with
  \<^verbatim>\<open>https://cdn.example/project-logos/abc123.png\<close>, on a host that refuses every other
  folder.
\<close>

theorem upload_resolves_with_secure_url:
  assumes "arrayBuffer fl = Inr bytes"
    and "h \<lparr>folder = ''project-logos''\<rparr> = Inr stream"
    and "stream bytes = Completes ((err, JObj props) # rest)"
    and "\<not> truthy err"
    and "map_of props ''secure_url'' = Some (JStr url)"
  shows "fst (uploadToCloudinary fl h w) = Fulfilled (JStr url) \<and>
         upload_calls fl h = [Upload_stream \<lparr>folder = ''project-logos''\<rparr>, End bytes]"
proof -
  have "fst (callback Pending (err, JObj props)) = Fulfilled (JStr url)"
    using assms(4,5) by (simp add: callback_def)
  then have "fst (deliver Pending ((err, JObj props) # rest)) = Fulfilled (JStr url)"
    by (simp add: fst_deliver_Cons deliver_settled del: deliver.simps(2))
  with assms(1-3) show ?thesis
    by (simp add: fst_upload upload_calls_eq)
qed

theorem upload_resolves_with_secure_url_witness:
  "fst (uploadToCloudinary payload10 (logo_host (Completes [(Undefined, cdn_response)])) world0) =
     Fulfilled (JStr ''https://cdn.example/project-logos/abc123.png'') \<and>
   upload_calls payload10 (logo_host (Completes [(Undefined, cdn_response)])) =
     [Upload_stream \<lparr>folder = ''project-logos''\<rparr>, End (fdata payload10)] \<and>
   length (fdata payload10) = 10"
proof -
  let ?stream = "\<lambda>buffer :: byte list. Completes [(Undefined, cdn_response)]"
  have a: "arrayBuffer payload10 = Inr (fdata payload10)"
    by (simp add: arrayBuffer_def payload10_def)
  have b: "logo_host (Completes [(Undefined, cdn_response)]) \<lparr>folder = ''project-logos''\<rparr> =
             Inr ?stream"
    by (simp add: logo_host_def)
  have c: "?stream (fdata payload10) =
             Completes ((Undefined,
               JObj [(''public_id'', JStr ''project-logos/abc123''),
                     (''secure_url'', JStr ''https://cdn.example/project-logos/abc123.png'')]) # [])"
    by (simp add: cdn_response_def)
  have d: "\<not> truthy Undefined" by simp
  have e: "map_of [(''public_id'', JStr ''project-logos/abc123''),
                   (''secure_url'', JStr ''https://cdn.example/project-logos/abc123.png'')]
             ''secure_url'' = Some (JStr ''https://cdn.example/project-logos/abc123.png'')"
    by simp
  have l: "length (fdata payload10) = 10" by (simp add: payload10_def)
  note r = upload_resolves_with_secure_url
         [where fl = payload10 and bytes = "fdata payload10"
            and h = "logo_host (Completes [(Undefined, cdn_response)])" and stream = ?stream
            and err = Undefined and rest = "[]" and w = world0
            and props = "[(''public_id'', JStr ''project-logos/abc123''),
                   (''secure_url'', JStr ''https://cdn.example/project-logos/abc123.png'')]"
            and url = "''https://cdn.example/project-logos/abc123.png''", OF a b c d e]
  from r l show ?thesis
    by blast
qed

text \<open>
  C3: when the host fails the upload with the error \<open>e\<close> (its first invocation of the
  callback carries \<open>e\<close>, or one of its calls throws \<open>e\<close>), the bridge rejects with
  \<open>e\<close> itself, so no reference is produced, and the host has been asked once: one
  \<^verbatim>\<open>upload_stream\<close> call and at most one \<^verbatim>\<open>end\<close>, no retry.
\<close>

theorem host_failure_rejects_unchanged:
  assumes "arrayBuffer fl = Inr bytes" and "host_fails h bytes e"
  shows "fst (uploadToCloudinary fl h w) = Rejected e \<and>
         (upload_calls fl h = [Upload_stream \<lparr>folder = ''project-logos''\<rparr>] \<or>
          upload_calls fl h = [Upload_stream \<lparr>folder = ''project-logos''\<rparr>, End bytes])"
proof (cases "h \<lparr>folder = ''project-logos''\<rparr>")
  case (Inl exn)
  with assms show ?thesis by (simp add: fst_upload upload_calls_eq host_fails_def)
next
  case stream: (Inr stream)
  show ?thesis
  proof (cases "stream bytes")
    case (EndThrows exn)
    with assms stream show ?thesis by (simp add: fst_upload upload_calls_eq host_fails_def)
  next
    case (Completes calls)
    with assms stream obtain res rest where calls: "calls = (e, res) # rest" and e: "truthy e"
      by (auto simp: host_fails_def split: list.splits)
    from e have "fst (callback Pending (e, res)) = Rejected e"
      by (simp add: callback_def)
    then have "fst (deliver Pending calls) = Rejected e"
      unfolding calls by (simp add: fst_deliver_Cons deliver_settled del: deliver.simps(2))
    with assms(1) stream Completes show ?thesis
      by (simp add: fst_upload upload_calls_eq)
  qed
qed

theorem host_failure_rejects_unchanged_witness:
  "host_fails (host_replying (Completes [(quota_error, Undefined), (Undefined, cdn_response)]))
     (fdata payload10) quota_error \<and>
   fst (uploadToCloudinary payload10
          (host_replying (Completes [(quota_error, Undefined), (Undefined, cdn_response)])) world0) =
     Rejected quota_error \<and>
   upload_calls payload10
     (host_replying (Completes [(quota_error, Undefined), (Undefined, cdn_response)])) =
     [Upload_stream \<lparr>folder = ''project-logos''\<rparr>, End (fdata payload10)]"
proof -
  let ?h = "host_replying (Completes [(quota_error, Undefined), (Undefined, cdn_response)])"
  have a: "arrayBuffer payload10 = Inr (fdata payload10)"
    by (simp add: arrayBuffer_def payload10_def)
  have b: "host_fails ?h (fdata payload10) quota_error"
    by (simp add: host_fails_def host_replying_def quota_error_def)
  have c: "upload_calls payload10 ?h \<noteq> [Upload_stream \<lparr>folder = ''project-logos''\<rparr>]"
    by (simp add: upload_calls_eq a host_replying_def)
  from host_failure_rejects_unchanged [OF a b, of world0] b c show ?thesis
    by simp
qed

text \<open>
  C4: the payload is read whole before anything is sent. Every buffer handed to the host
  is the complete content of a payload that was read; a payload whose read fails causes
  no call to the host; and when the read succeeds and the host opens a stream, the
  traffic is one \<^verbatim>\<open>upload_stream\<close> call followed by one \<^verbatim>\<open>end\<close> call with the
  complete content.
\<close>

theorem payload_buffered_whole:
  "(\<forall>b. End b \<in> set (upload_calls fl h) \<longrightarrow> fread_error fl = None \<and> b = fdata fl) \<and>
   (fread_error fl \<noteq> None \<longrightarrow> upload_calls fl h = []) \<and>
   (\<forall>stream. fread_error fl = None \<and> h \<lparr>folder = ''project-logos''\<rparr> = Inr stream \<longrightarrow>
      upload_calls fl h = [Upload_stream \<lparr>folder = ''project-logos''\<rparr>, End (fdata fl)])"
  by (auto simp: upload_calls_eq arrayBuffer_def split: option.splits sum.splits)

theorem payload_buffered_whole_witness:
  "End (fdata payload10) \<in> set (upload_calls payload10 (host_replying (Completes []))) \<and>
   upload_calls (payload10\<lparr>fread_error := Some (Error ''NotReadableError'')\<rparr>)
     (host_replying (Completes [])) = [] \<and>
   upload_calls payload10 (host_replying (Completes [])) =
     [Upload_stream \<lparr>folder = ''project-logos''\<rparr>,
      End [137, 80, 78, 71, 13, 10, 26, 10, 0, 0]]"
proof -
  let ?H = "host_replying (Completes [])"
  let ?unreadable = "payload10\<lparr>fread_error := Some (Error ''NotReadableError'')\<rparr>"
  have a1: "fread_error payload10 = None"
    by (simp add: payload10_def)
  have a2: "?H \<lparr>folder = ''project-logos''\<rparr> = Inr (\<lambda>buffer. Completes [])"
    by (simp add: host_replying_def)
  from payload_buffered_whole [of payload10 ?H] a1 a2
  have u: "upload_calls payload10 ?H =
             [Upload_stream \<lparr>folder = ''project-logos''\<rparr>, End (fdata payload10)]"
    by blast
  have b: "fread_error ?unreadable \<noteq> None"
    by simp
  from payload_buffered_whole [of ?unreadable ?H] b
  have v: "upload_calls ?unreadable ?H = []"
    by blast
  have c: "fdata payload10 = [137, 80, 78, 71, 13, 10, 26, 10, 0, 0]"
    by (simp add: payload10_def)
  from u have m: "End (fdata payload10) \<in> set (upload_calls payload10 ?H)"
    by simp
  from u have "upload_calls payload10 ?H =
                 [Upload_stream \<lparr>folder = ''project-logos''\<rparr>,
                  End [137, 80, 78, 71, 13, 10, 26, 10, 0, 0]]"
    by (simp only: c)
  with m v show ?thesis
    by blast
qed

lemma callback_Rejected:
  "fst (callback p (err, res)) = Rejected e \<Longrightarrow> p = Rejected e \<or> (err = e \<and> truthy e)"
  by (cases p) (auto simp: callback_def split: if_splits sum.splits)

lemma deliver_Rejected:
  "fst (deliver p calls) = Rejected e \<Longrightarrow>
     p = Rejected e \<or> list_ex (\<lambda>c. fst c = e \<and> truthy e) calls"
proof (induction calls arbitrary: p)
  case Nil
  then show ?case by simp
next
  case (Cons c cs)
  obtain err res where c: "c = (err, res)"
    by (cases c)
  from Cons.prems have "fst (deliver (fst (callback p c)) cs) = Rejected e"
    by (simp only: fst_deliver_Cons)
  from Cons.IH [OF this]
  have "fst (callback p c) = Rejected e \<or> list_ex (\<lambda>c. fst c = e \<and> truthy e) cs" .
  then show ?case
  proof
    assume "fst (callback p c) = Rejected e"
    with c callback_Rejected [of p err res e] show ?thesis
      by auto
  next
    assume "list_ex (\<lambda>c. fst c = e \<and> truthy e) cs"
    then show ?thesis by simp
  qed
qed

lemma upload_Rejected:
  assumes "fread_error fl = None" and "fst (uploadToCloudinary fl h w) = Rejected e"
  shows "host_raised h (fdata fl) e"
proof -
  from assms(1) have a: "arrayBuffer fl = Inr (fdata fl)"
    by (simp add: arrayBuffer_def)
  show ?thesis
  proof (cases "h \<lparr>folder = ''project-logos''\<rparr>")
    case (Inl exn)
    with a assms(2) show ?thesis
      by (simp add: fst_upload host_raised_def)
  next
    case stream: (Inr stream)
    show ?thesis
    proof (cases "stream (fdata fl)")
      case (EndThrows exn)
      with a stream assms(2) show ?thesis
        by (simp add: fst_upload host_raised_def)
    next
      case (Completes calls)
      with a stream assms(2) have "fst (deliver Pending calls) = Rejected e"
        by (simp add: fst_upload)
      from deliver_Rejected [OF this] have "list_ex (\<lambda>c. fst c = e \<and> truthy e) calls"
        by simp
      with stream Completes show ?thesis
        by (simp add: host_raised_def)
    qed
  qed
qed

lemma length_zeros_3MiB: "length zeros_3MiB = 3 * 1024 * 1024"
  by (simp only: zeros_3MiB_def length_replicate)

lemma deliver_not_decisive:
  "list_all (\<lambda>c. \<not> decisive c) calls \<Longrightarrow>
     deliver p calls = (p, replicate (length calls) TypeError)"
  by (induction calls arbitrary: p) (simp_all add: callback_not_decisive)

lemma list_ex_decisive: "list_ex decisive calls \<longleftrightarrow> \<not> list_all (\<lambda>c. \<not> decisive c) calls"
  by (simp add: list_ex_iff list_all_iff)

text \<open>
  C5: the bridge validates neither size nor type. Changing the declared size and type of
  a payload changes nothing in what the bridge does; and every readable payload,
  whatever its content, length and type, is put to the host: \<^verbatim>\<open>upload_stream\<close> is
  called, and when the host opens a stream, the traffic is that call and the
  \<^verbatim>\<open>end\<close> call with the complete content, the outcome is the one the host's
  invocations of the callback produce, and a rejection only ever carries what the host
  raised. The witness is a PDF file of 3 MiB.
\<close>

theorem no_size_or_type_validation:
  "uploadToCloudinary (fl\<lparr>fsize := n, ftype := t\<rparr>) h w = uploadToCloudinary fl h w \<and>
   (fread_error fl = None \<longrightarrow>
      (\<exists>more. upload_calls fl h = Upload_stream \<lparr>folder = ''project-logos''\<rparr> # more) \<and>
      (\<forall>stream. h \<lparr>folder = ''project-logos''\<rparr> = Inr stream \<longrightarrow>
         upload_calls fl h = [Upload_stream \<lparr>folder = ''project-logos''\<rparr>, End (fdata fl)] \<and>
         (\<forall>calls. stream (fdata fl) = Completes calls \<longrightarrow>
            fst (uploadToCloudinary fl h w) = fst (deliver Pending calls))) \<and>
      (\<forall>e. fst (uploadToCloudinary fl h w) = Rejected e \<longrightarrow> host_raised h (fdata fl) e))"
proof -
  have zero: "\<exists>more. upload_calls fl h = Upload_stream \<lparr>folder = ''project-logos''\<rparr> # more"
    if "fread_error fl = None"
    using that by (simp add: upload_calls_eq arrayBuffer_def)
  have "arrayBuffer (fl\<lparr>fsize := n, ftype := t\<rparr>) = arrayBuffer fl"
    by (simp add: arrayBuffer_def split: option.splits)
  then have one: "uploadToCloudinary (fl\<lparr>fsize := n, ftype := t\<rparr>) h w = uploadToCloudinary fl h w"
    by (simp add: uploadToCloudinary_def)
  have two: "upload_calls fl h = [Upload_stream \<lparr>folder = ''project-logos''\<rparr>, End (fdata fl)] \<and>
         (\<forall>calls. stream (fdata fl) = Completes calls \<longrightarrow>
            fst (uploadToCloudinary fl h w) = fst (deliver Pending calls))"
    if "fread_error fl = None" "h \<lparr>folder = ''project-logos''\<rparr> = Inr stream" for stream
    using that by (simp add: upload_calls_eq fst_upload arrayBuffer_def)
  from zero one two upload_Rejected [of fl h w] show ?thesis
    by blast
qed

theorem no_size_or_type_validation_witness:
  "fread_error oversized_pdf = None \<and>
   ftype oversized_pdf = ''application/pdf'' \<and>
   length (fdata oversized_pdf) = 3 * 1024 * 1024 \<and>
   upload_calls oversized_pdf (host_replying (Completes [(Undefined, cdn_response)])) =
     [Upload_stream \<lparr>folder = ''project-logos''\<rparr>, End (fdata oversized_pdf)] \<and>
   fst (uploadToCloudinary oversized_pdf
          (host_replying (Completes [(Undefined, cdn_response)])) world0) =
     Fulfilled (JStr ''https://cdn.example/project-logos/abc123.png'')"
proof -
  let ?h = "host_replying (Completes [(Undefined, cdn_response)])"
  have a: "fread_error oversized_pdf = None"
    and t: "ftype oversized_pdf = ''application/pdf''"
    and d: "fdata oversized_pdf = zeros_3MiB"
    by (simp_all add: oversized_pdf_def)
  have l: "length (fdata oversized_pdf) = 3 * 1024 * 1024"
    by (simp only: d length_zeros_3MiB)
  have b: "?h \<lparr>folder = ''project-logos''\<rparr> = Inr (\<lambda>buffer. Completes [(Undefined, cdn_response)])"
    by (simp add: host_replying_def)
  have v: "fst (deliver Pending [(Undefined, cdn_response)]) =
             Fulfilled (JStr ''https://cdn.example/project-logos/abc123.png'')"
    by (simp add: callback_def cdn_response_def)
  from no_size_or_type_validation
         [where fl = oversized_pdf and h = ?h and w = world0 and n = 0 and t = "[]"] a b
  have "upload_calls oversized_pdf ?h =
          [Upload_stream \<lparr>folder = ''project-logos''\<rparr>, End (fdata oversized_pdf)]"
    and "fst (uploadToCloudinary oversized_pdf ?h world0) =
          fst (deliver Pending [(Undefined, cdn_response)])"
    by blast+
  with a t l v show ?thesis
    by (simp only: simp_thms)
qed

text \<open>
  C9, as stated, fails: an invocation with a \<^verbatim>\<open>null\<close> error and an \<^verbatim>\<open>undefined\<close>
  result throws inside the callback, but the promise settles all the same when the host
  goes on to invoke the callback with an error.
\<close>

theorem undefined_result_then_error_counterexample:
  "callback Pending (Null, Undefined) = (Pending, Some TypeError) \<and>
   fst (uploadToCloudinary payload10
          (host_replying (Completes [(Null, Undefined), (quota_error, Undefined)])) world0) =
     Rejected quota_error"
  by (simp add: fst_upload arrayBuffer_def payload10_def host_replying_def callback_def
        quota_error_def)

text \<open>
  C9, amended: for a host that takes the buffer and invokes the completion callback
  after \<^verbatim>\<open>end\<close> has returned, an invocation with a \<^verbatim>\<open>null\<close> error and an
  \<^verbatim>\<open>undefined\<close> result throws a TypeError inside the callback and leaves the promise as
  it was; the returned promise stays pending exactly when every invocation the host
  makes carries neither an error nor a defined result, each of them throwing a TypeError
  that goes to the host.
\<close>

theorem undefined_result_never_settles:
  assumes "arrayBuffer fl = Inr bytes"
    and "h \<lparr>folder = ''project-logos''\<rparr> = Inr stream"
    and "stream bytes = Completes calls"
  shows "(\<forall>p. callback p (Null, Undefined) = (p, Some TypeError)) \<and>
         (fst (uploadToCloudinary fl h w) = Pending \<longleftrightarrow> list_all (\<lambda>c. \<not> decisive c) calls) \<and>
         (list_all (\<lambda>c. \<not> decisive c) calls \<longrightarrow>
            uploadToCloudinary fl h w =
              (Pending,
               w\<lparr>host_log := host_log w @ [Upload_stream \<lparr>folder = ''project-logos''\<rparr>, End bytes],
                 uncaught := uncaught w @ replicate (length calls) TypeError\<rparr>))"
proof -
  have one: "callback p (Null, Undefined) = (p, Some TypeError)" for p
    by (simp add: callback_def)
  have "fst (uploadToCloudinary fl h w) = fst (deliver Pending calls)"
    using assms by (simp add: fst_upload)
  then have two: "fst (uploadToCloudinary fl h w) = Pending \<longleftrightarrow>
                    list_all (\<lambda>c. \<not> decisive c) calls"
    using deliver_list_ex [of calls] by (simp add: list_ex_decisive)
  have three: "uploadToCloudinary fl h w =
              (Pending,
               w\<lparr>host_log := host_log w @ [Upload_stream \<lparr>folder = ''project-logos''\<rparr>, End bytes],
                 uncaught := uncaught w @ replicate (length calls) TypeError\<rparr>)"
    if "list_all (\<lambda>c. \<not> decisive c) calls"
    using assms deliver_not_decisive [OF that, of Pending]
    by (simp add: uploadToCloudinary_def Buffer_from_def)
  from one two three show ?thesis
    by blast
qed

theorem undefined_result_never_settles_witness:
  "list_all (\<lambda>c. \<not> decisive c) [(Null, Undefined), (Undefined, Undefined)] \<and>
   uploadToCloudinary payload10
     (host_replying (Completes [(Null, Undefined), (Undefined, Undefined)])) world0 =
     (Pending,
      \<lparr>host_log = [Upload_stream \<lparr>folder = ''project-logos''\<rparr>, End (fdata payload10)],
       console = [], uncaught = [TypeError, TypeError]\<rparr>)"
proof -
  let ?calls = "[(Null, Undefined), (Undefined, Undefined)]"
  have a: "arrayBuffer payload10 = Inr (fdata payload10)"
    by (simp add: arrayBuffer_def payload10_def)
  have b: "host_replying (Completes ?calls) \<lparr>folder = ''project-logos''\<rparr> =
             Inr (\<lambda>buffer. Completes ?calls)"
    by (simp add: host_replying_def)
  have c: "(\<lambda>buffer :: byte list. Completes ?calls) (fdata payload10) = Completes ?calls"
    by simp
  have d: "list_all (\<lambda>c. \<not> decisive c) ?calls"
    by (simp add: decisive_def)
  note r = undefined_result_never_settles
         [where fl = payload10 and bytes = "fdata payload10"
            and h = "host_replying (Completes ?calls)"
            and stream = "\<lambda>buffer. Completes ?calls"
            and calls = ?calls and w = world0, OF a b c]
  from r d have "uploadToCloudinary payload10 (host_replying (Completes ?calls)) world0 =
     (Pending,
      world0\<lparr>host_log := host_log world0 @
                 [Upload_stream \<lparr>folder = ''project-logos''\<rparr>, End (fdata payload10)],
             uncaught := uncaught world0 @ replicate (length ?calls) TypeError\<rparr>)"
    by blast
  moreover have "world0\<lparr>host_log := host_log world0 @
                 [Upload_stream \<lparr>folder = ''project-logos''\<rparr>, End (fdata payload10)],
             uncaught := uncaught world0 @ replicate (length ?calls) TypeError\<rparr> =
      \<lparr>host_log = [Upload_stream \<lparr>folder = ''project-logos''\<rparr>, End (fdata payload10)],
       console = [], uncaught = [TypeError, TypeError]\<rparr>"
    by (simp add: world0_def eval_nat_numeral)
  ultimately show ?thesis
    using d by (simp only: simp_thms)
qed

section \<open>The events page: search filter\<close>











lemma sigma_lowercase:
  assumes "cased U 0x0391" and "simple_lower U 0x0391 = 0x03B1"
    and "simple_lower U 0x03A3 = 0x03C3"
  shows "toLowerCase U [0x0391, 0x03A3, 0x0391] = [0x03B1, 0x03C3, 0x03B1]"
    and "toLowerCase U [0x0391, 0x03A3] = [0x03B1, 0x03C2]"
  using assms
  by (simp_all add: toLowerCase_def CodePointsToString_def UTF16EncodeCodePoint_def
        lowercase_mapping_def Final_Sigma_def is_lead_def)








section \<open>The events page: delete confirmation\<close>

lemma handleDeleteConfirm_failed:
  assumes "delete_failed nt s"
  shows "\<exists>exn. handleDeleteConfirm nt s =
           (s\<lparr>requests := requests s @ [delete_request s],
              toasts := toasts s @ [ToastError ''Error deleting event''],
              page_console := page_console s @ [[exn]],
              deleteModal := \<lparr>isOpen = False, eventId = [], eventTitle = []\<rparr>\<rparr>, False)"
proof (cases "nt (delete_request s)")
  case (Inl exn)
  then show ?thesis
    by (intro exI [of _ exn])
       (simp add: handleDeleteConfirm_def handleDeleteConfirm_catch_def delete_request_def)
next
  case (Inr response)
  with assms have "\<not> ok response"
    by (simp add: delete_failed_def)
  with Inr show ?thesis
    by (intro exI [of _ "Error ''Failed to delete event''"])
       (simp add: handleDeleteConfirm_def handleDeleteConfirm_catch_def delete_request_def)
qed

lemma handleDeleteConfirm_succeeded:
  assumes "\<not> delete_failed nt s"
  shows "handleDeleteConfirm nt s =
           (s\<lparr>requests := requests s @ [delete_request s, fetchEvents_request],
              toasts := toasts s @ [ToastSuccess ''Event deleted successfully''],
              isLoading := True,
              deleteModal := \<lparr>isOpen = False, eventId = [], eventTitle = []\<rparr>\<rparr>, True)"
proof (cases "nt (delete_request s)")
  case (Inl exn)
  with assms show ?thesis
    by (simp add: delete_failed_def)
next
  case (Inr response)
  with assms have "ok response"
    by (simp add: delete_failed_def)
  with Inr show ?thesis
    by (simp add: handleDeleteConfirm_def fetchEvents_begin_def delete_request_def)
qed

lemma deleteModal_fetchEvents_resume: "deleteModal (fetchEvents_resume nt s) = deleteModal s"
  by (simp add: fetchEvents_resume_def fetchEvents_catch_def split: sum.splits)

lemma delete_failed_refusing: "delete_failed refusing_backend sample_page"
  by (simp add: delete_failed_def refusing_backend_def)

lemma delete_failed_unreachable: "delete_failed unreachable_backend sample_page"
  by (simp add: delete_failed_def unreachable_backend_def)

lemma not_delete_failed_listing: "\<not> delete_failed (backend_listing evs) sample_page"
  by (simp add: delete_failed_def backend_listing_def)

lemma delete_request_sample:
  "delete_request sample_page = \<lparr>rmethod = ''DELETE'', rurl = ''/api/events/e1''\<rparr>"
  by (simp add: delete_request_def sample_page_def)

lemma not_delete_failed_deleting: "\<not> delete_failed deleting_backend sample_page"
  by (simp add: delete_failed_def deleting_backend_def delete_request_def)

lemma events_fetchEvents_resume:
  "events (fetchEvents_resume nt p) =
     (case nt fetchEvents_request of
        Inl exn \<Rightarrow> events p
      | Inr response \<Rightarrow>
          if \<not> ok response then events p
          else (case json response of Inl exn \<Rightarrow> events p | Inr data \<Rightarrow> data))"
  by (simp add: fetchEvents_resume_def fetchEvents_catch_def split: sum.splits)

lemma requests_fetchEvents_resume: "requests (fetchEvents_resume nt p) = requests p"
  by (simp add: fetchEvents_resume_def fetchEvents_catch_def split: sum.splits)

text \<open>
  C8: when the DELETE request fails (it throws, or the response is not ok), the handler
  starts no refetch; the events list, the loading flag and the search string are what
  they were, the only request made is the DELETE, and one error toast is shown. When the
  DELETE request succeeds, the handler leaves the events list as it is and issues the GET
  of the whole collection; when that comes back, the list it brings replaces the events
  list, whatever it held, and when it fails the events list is still the old one, the
  deleted event included.
\<close>

theorem delete_failure_leaves_list_success_refetches:
  "(delete_failed nt s \<longrightarrow>
      \<not> snd (handleDeleteConfirm nt s) \<and>
      events (settled nt (handleDeleteConfirm nt s)) = events s \<and>
      isLoading (settled nt (handleDeleteConfirm nt s)) = isLoading s \<and>
      searchQuery (settled nt (handleDeleteConfirm nt s)) = searchQuery s \<and>
      requests (settled nt (handleDeleteConfirm nt s)) = requests s @ [delete_request s] \<and>
      toasts (settled nt (handleDeleteConfirm nt s)) =
        toasts s @ [ToastError ''Error deleting event'']) \<and>
   (\<not> delete_failed nt s \<longrightarrow>
      snd (handleDeleteConfirm nt s) \<and>
      events (fst (handleDeleteConfirm nt s)) = events s \<and>
      requests (settled nt (handleDeleteConfirm nt s)) =
        requests s @ [delete_request s, fetchEvents_request] \<and>
      (\<forall>data. nt fetchEvents_request = Inr \<lparr>ok = True, json = Inr data\<rparr> \<longrightarrow>
         events (settled nt (handleDeleteConfirm nt s)) = data) \<and>
      ((\<forall>data. nt fetchEvents_request \<noteq> Inr \<lparr>ok = True, json = Inr data\<rparr>) \<longrightarrow>
         events (settled nt (handleDeleteConfirm nt s)) = events s))"
proof (cases "delete_failed nt s")
  case True
  from handleDeleteConfirm_failed [OF True] obtain exn where
    "handleDeleteConfirm nt s =
           (s\<lparr>requests := requests s @ [delete_request s],
              toasts := toasts s @ [ToastError ''Error deleting event''],
              page_console := page_console s @ [[exn]],
              deleteModal := \<lparr>isOpen = False, eventId = [], eventTitle = []\<rparr>\<rparr>, False)"
    by blast
  with True show ?thesis
    by (simp add: settled_def)
next
  case False
  have ok: "events (fetchEvents_resume nt p) = data"
    if "nt fetchEvents_request = Inr \<lparr>ok = True, json = Inr data\<rparr>" for p data
    using that by (simp add: events_fetchEvents_resume)
  have ko: "events (fetchEvents_resume nt p) = events p"
    if "\<forall>data. nt fetchEvents_request \<noteq> Inr \<lparr>ok = True, json = Inr data\<rparr>" for p
  proof (cases "nt fetchEvents_request")
    case (Inl exn)
    then show ?thesis by (simp add: events_fetchEvents_resume)
  next
    case (Inr response)
    show ?thesis
    proof (cases "ok response")
      case False
      with Inr show ?thesis by (simp add: events_fetchEvents_resume)
    next
      case True
      show ?thesis
      proof (cases "json response")
        case (Inl exn)
        with Inr True show ?thesis by (simp add: events_fetchEvents_resume)
      next
        case data: (Inr data)
        with True have "response = \<lparr>ok = True, json = Inr data\<rparr>"
          by (cases response) simp
        with Inr that show ?thesis by blast
      qed
    qed
  qed
  from False ok ko show ?thesis
    by (simp add: handleDeleteConfirm_succeeded settled_def requests_fetchEvents_resume)
qed

theorem delete_failure_leaves_list_success_refetches_witness:
  "delete_failed refusing_backend sample_page \<and>
   events (settled refusing_backend (handleDeleteConfirm refusing_backend sample_page)) =
     [launch_party, board_meeting] \<and>
   requests (settled refusing_backend (handleDeleteConfirm refusing_backend sample_page)) =
     [\<lparr>rmethod = ''DELETE'', rurl = ''/api/events/e1''\<rparr>] \<and>
   \<not> delete_failed (backend_listing [board_meeting, rocket_workshop]) sample_page \<and>
   requests (settled (backend_listing [board_meeting, rocket_workshop])
               (handleDeleteConfirm (backend_listing [board_meeting, rocket_workshop])
                  sample_page)) =
     [\<lparr>rmethod = ''DELETE'', rurl = ''/api/events/e1''\<rparr>,
      \<lparr>rmethod = ''GET'', rurl = ''/api/admin/events''\<rparr>] \<and>
   events (fst (handleDeleteConfirm (backend_listing [board_meeting, rocket_workshop])
                  sample_page)) =
     [launch_party, board_meeting] \<and>
   events (settled (backend_listing [board_meeting, rocket_workshop])
             (handleDeleteConfirm (backend_listing [board_meeting, rocket_workshop])
                sample_page)) =
     [board_meeting, rocket_workshop] \<and>
   \<not> delete_failed deleting_backend sample_page \<and>
   events (settled deleting_backend (handleDeleteConfirm deleting_backend sample_page)) =
     [launch_party, board_meeting]"
proof -
  let ?ok = "backend_listing [board_meeting, rocket_workshop]"
  have ev: "events sample_page = [launch_party, board_meeting]"
    and rq: "requests sample_page = []"
    by (simp_all add: sample_page_def)
  have get: "?ok fetchEvents_request =
               Inr \<lparr>ok = True, json = Inr [board_meeting, rocket_workshop]\<rparr>"
    by (simp add: backend_listing_def)
  have noget: "\<forall>data. deleting_backend fetchEvents_request \<noteq> Inr \<lparr>ok = True, json = Inr data\<rparr>"
    by (simp add: deleting_backend_def fetchEvents_request_def)
  note f = delete_failure_leaves_list_success_refetches [of refusing_backend sample_page]
  note g = delete_failure_leaves_list_success_refetches [of ?ok sample_page]
  note k = delete_failure_leaves_list_success_refetches [of deleting_backend sample_page]
  from f delete_failed_refusing
  have f1: "events (settled refusing_backend (handleDeleteConfirm refusing_backend sample_page)) =
              events sample_page"
    and f2: "requests (settled refusing_backend (handleDeleteConfirm refusing_backend sample_page)) =
              requests sample_page @ [delete_request sample_page]"
    by blast+
  from g not_delete_failed_listing [of "[board_meeting, rocket_workshop]"] get
  have g1: "requests (settled ?ok (handleDeleteConfirm ?ok sample_page)) =
              requests sample_page @ [delete_request sample_page, fetchEvents_request]"
    and g2: "events (settled ?ok (handleDeleteConfirm ?ok sample_page)) =
              [board_meeting, rocket_workshop]"
    and g3: "events (fst (handleDeleteConfirm ?ok sample_page)) = events sample_page"
    by blast+
  from k not_delete_failed_deleting noget
  have k1: "events (settled deleting_backend (handleDeleteConfirm deleting_backend sample_page)) =
              events sample_page"
    by blast
  from f1 f2 g1 g2 g3 k1 show ?thesis
    by (simp only: ev rq delete_request_sample fetchEvents_request_def append_Nil
          delete_failed_refusing not_delete_failed_listing not_delete_failed_deleting
          not_False_eq_True simp_thms)
qed

text \<open>
  C10: when the handler has completed, and also when the refetch it may have started has
  come back, the delete modal is closed and its event id and title are empty, whatever
  the DELETE request did. The witness runs the three cases: a non-ok response, a request
  that throws, and a success.
\<close>

theorem delete_modal_always_reset:
  "deleteModal (fst (handleDeleteConfirm nt s)) =
     \<lparr>isOpen = False, eventId = [], eventTitle = []\<rparr> \<and>
   deleteModal (settled nt (handleDeleteConfirm nt s)) =
     \<lparr>isOpen = False, eventId = [], eventTitle = []\<rparr>"
proof (cases "delete_failed nt s")
  case True
  from handleDeleteConfirm_failed [OF True] show ?thesis
    by (auto simp: settled_def)
next
  case False
  then show ?thesis
    by (simp add: handleDeleteConfirm_succeeded settled_def deleteModal_fetchEvents_resume)
qed

theorem delete_modal_always_reset_witness:
  "deleteModal (fst (handleDeleteConfirm refusing_backend sample_page)) =
     \<lparr>isOpen = False, eventId = [], eventTitle = []\<rparr> \<and>
   deleteModal (fst (handleDeleteConfirm unreachable_backend sample_page)) =
     \<lparr>isOpen = False, eventId = [], eventTitle = []\<rparr> \<and>
   deleteModal (settled (backend_listing [board_meeting])
                  (handleDeleteConfirm (backend_listing [board_meeting]) sample_page)) =
     \<lparr>isOpen = False, eventId = [], eventTitle = []\<rparr> \<and>
   deleteModal sample_page \<noteq> \<lparr>isOpen = False, eventId = [], eventTitle = []\<rparr>"
proof -
  have "deleteModal sample_page \<noteq> \<lparr>isOpen = False, eventId = [], eventTitle = []\<rparr>"
    by (simp add: sample_page_def)
  with delete_modal_always_reset [of refusing_backend sample_page]
    delete_modal_always_reset [of unreachable_backend sample_page]
    delete_modal_always_reset [of "backend_listing [board_meeting]" sample_page]
  show ?thesis
    by blast
qed

section \<open>The sponsor form: logo attachment\<close>

lemma logo_issues_Nil_iff:
  "logo_issues files = [] \<longleftrightarrow> logo_has_one files \<and> logo_size_ok files \<and> logo_type_ok files"
  by (simp add: logo_issues_def)

lemma logo_checks_iff:
  "logo_has_one files \<and> logo_size_ok files \<and> logo_type_ok files \<longleftrightarrow>
     (\<exists>f. files = Some [f] \<and> fsize f \<le> 2 * 1024 * 1024 \<and>
          ftype f \<in> {''image/jpeg'', ''image/jpg'', ''image/png''})"
proof (cases files)
  case None
  then show ?thesis by (simp add: logo_has_one_def)
next
  case (Some fs)
  show ?thesis
  proof (cases fs)
    case Nil
    with Some show ?thesis by (simp add: logo_has_one_def)
  next
    case (Cons f rest)
    with Some show ?thesis
      by (cases rest) (simp_all add: logo_has_one_def logo_size_ok_def logo_type_ok_def)
  qed
qed

lemma logo_issues_path: "i \<in> set (logo_issues files) \<Longrightarrow> path i = ''logo''"
  by (auto simp: logo_issues_def split: if_splits)

lemma filter_logo_issues: "filter (\<lambda>i. path i = ''logo'') (logo_issues files) = logo_issues files"
  by (simp add: logo_issues_path)

lemma filter_field_issues:
  "filter (\<lambda>i. path i = ''logo'') (field_issues other data k) =
     (if k = ''logo'' then logo_issues (sp_logo data) else [])"
  by (simp add: field_issues_def filter_logo_issues)

lemma logo_issues_of_schema:
  "filter (\<lambda>i. path i = ''logo'') (createSponsorSchema other data) = logo_issues (sp_logo data)"
  by (simp add: createSponsorSchema_def schema_keys_def filter_field_issues)

lemma zodResolver_logo:
  "zodResolver (createSponsorSchema other data) ''logo'' =
     (case logo_issues (sp_logo data) of [] \<Rightarrow> None | i # _ \<Rightarrow> Some (message i))"
  by (simp add: zodResolver_def logo_issues_of_schema)

lemma createSponsorSchema_Nil:
  "createSponsorSchema other data = [] \<Longrightarrow> logo_issues (sp_logo data) = []"
  using logo_issues_of_schema [of other data] by simp

lemma logo_issues_oversized_pdf:
  "logo_issues (Some [oversized_pdf]) =
     [\<lparr>path = ''logo'', message = ''Logo must be less than 2MB''\<rparr>,
      \<lparr>path = ''logo'', message = ''Only .jpg, .jpeg, and .png files are allowed''\<rparr>]"
  by (simp add: logo_issues_def logo_has_one_def logo_size_ok_def logo_type_ok_def
        oversized_pdf_def)

lemma logo_issues_payload10: "logo_issues (Some [payload10]) = []"
  by (simp add: logo_issues_def logo_has_one_def logo_size_ok_def logo_type_ok_def
        payload10_def)

lemma createSponsorSchema_order_example:
  "createSponsorSchema name_too_long (sample_sponsor (Some [oversized_pdf])) =
     [\<lparr>path = ''name'', message = ''Name cannot exceed 100 characters''\<rparr>,
      \<lparr>path = ''logo'', message = ''Logo must be less than 2MB''\<rparr>,
      \<lparr>path = ''logo'', message = ''Only .jpg, .jpeg, and .png files are allowed''\<rparr>]"
  by (simp add: createSponsorSchema_def schema_keys_def field_issues_def name_too_long_def
        sample_sponsor_def logo_issues_oversized_pdf)

lemma handleSubmit_accepted_example:
  "posts (handleSubmit no_other_issues accepting_backend
            (sample_sponsor (Some [payload10])) blank_form) =
     [[(''name'', EText ''Acme''), (''description'', EText ''Tools and hardware''),
       (''logo'', EFile payload10), (''email'', EText ''hello@acme.example''),
       (''phone'', EText []), (''website'', EText ''https://acme.example''),
       (''sponsorshipLevel'', EText ''Gold'')]] \<and>
   pushed (handleSubmit no_other_issues accepting_backend
             (sample_sponsor (Some [payload10])) blank_form) = [''/admin/sponsors'']"
proof -
  have "createSponsorSchema no_other_issues (sample_sponsor (Some [payload10])) = []"
    by (simp add: createSponsorSchema_def schema_keys_def field_issues_def no_other_issues_def
          sample_sponsor_def logo_issues_payload10)
  then show ?thesis
    by (simp add: handleSubmit_def onSubmit_def build_formData_def text_entry_def
          sample_sponsor_def blank_form_def accepting_backend_def)
qed

text \<open>
  C7: the schema raises no issue for the logo field exactly when one file is supplied,
  its size is at most 2 * 1024 * 1024 bytes and its type is one of
  \<^verbatim>\<open>image/jpeg\<close>, \<^verbatim>\<open>image/jpg\<close>, \<^verbatim>\<open>image/png\<close>. When the logo violates this, the
  issues are raised under the path \<^verbatim>\<open>logo\<close>, the message of the first of them is the
  form's error for the logo, whatever the other fields raise, and the submit handler is
  not run: no request carrying the file leaves the page and the page does not navigate,
  so nothing can reach the upload bridge.
\<close>

theorem logo_schema_accepts_iff:
  "(logo_issues files = [] \<longleftrightarrow>
      (\<exists>f. files = Some [f] \<and> fsize f \<le> 2 * 1024 * 1024 \<and>
           ftype f \<in> {''image/jpeg'', ''image/jpg'', ''image/png''})) \<and>
   (logo_issues files \<noteq> [] \<and> sp_logo data = files \<longrightarrow>
      (\<forall>i \<in> set (logo_issues files). path i = ''logo'') \<and>
      form_errors (handleSubmit other nt data s) ''logo'' =
        Some (message (hd (logo_issues files))) \<and>
      posts (handleSubmit other nt data s) = posts s \<and>
      pushed (handleSubmit other nt data s) = pushed s)"
proof -
  have "handleSubmit other nt data s =
          s\<lparr>form_errors := zodResolver (createSponsorSchema other data)\<rparr>"
    if "logo_issues files \<noteq> []" "sp_logo data = files"
    using that createSponsorSchema_Nil [of other data] by (auto simp: handleSubmit_def Let_def)
  moreover have "zodResolver (createSponsorSchema other data) ''logo'' =
          Some (message (hd (logo_issues files)))"
    if "logo_issues files \<noteq> []" "sp_logo data = files"
    using that by (cases "logo_issues files") (simp_all add: zodResolver_logo)
  ultimately show ?thesis
    by (simp add: logo_issues_Nil_iff logo_checks_iff logo_issues_path)
qed

theorem logo_schema_accepts_iff_witness:
  "logo_issues (Some [payload10]) = [] \<and>
   logo_issues (Some [oversized_pdf]) \<noteq> [] \<and>
   form_errors (handleSubmit name_too_long accepting_backend
                  (sample_sponsor (Some [oversized_pdf])) blank_form) ''logo'' =
     Some ''Logo must be less than 2MB'' \<and>
   posts (handleSubmit name_too_long accepting_backend
            (sample_sponsor (Some [oversized_pdf])) blank_form) = []"
proof -
  let ?data = "sample_sponsor (Some [oversized_pdf])"
  have a: "logo_issues (Some [oversized_pdf]) \<noteq> []"
    by (simp only: logo_issues_oversized_pdf) simp
  have b: "sp_logo ?data = Some [oversized_pdf]"
    by (simp add: sample_sponsor_def)
  have c: "posts blank_form = []"
    by (simp add: blank_form_def)
  have d: "message (hd (logo_issues (Some [oversized_pdf]))) = ''Logo must be less than 2MB''"
    by (simp only: logo_issues_oversized_pdf) simp
  from logo_schema_accepts_iff
         [where files = "Some [oversized_pdf]" and data = ?data and other = name_too_long
            and nt = accepting_backend and s = blank_form] a b
  have "form_errors (handleSubmit name_too_long accepting_backend ?data blank_form) ''logo'' =
          Some (message (hd (logo_issues (Some [oversized_pdf]))))"
    and "posts (handleSubmit name_too_long accepting_backend ?data blank_form) =
          posts blank_form"
    by blast+
  with a show ?thesis
    by (simp only: logo_issues_payload10 c d simp_thms)
qed

end
